theory Spec2Isabelle
  imports Main "HOL-Library.AList"
begin

section \<open>Python values, exceptions and string primitives\<close>

text \<open>
  The module \<^verbatim>\<open>twistedcaldav/util.py\<close> is Python 2: a \<^verbatim>\<open>str\<close> is a byte string,
  modelled as \<^typ>\<open>string\<close>. An argument that may be \<^verbatim>\<open>None\<close> (every parameter of
  \<^verbatim>\<open>calcHA1\<close> and \<^verbatim>\<open>calcResponse\<close>, every \<^verbatim>\<open>details.get(..)\<close>) is a
  \<^typ>\<open>string option\<close>. Every exception the code can raise is a value of \<open>exn\<close>; a
  computation that may raise returns \<open>exn + 'a\<close> with the exception on the left.
  An exception raised by a \<^verbatim>\<open>raise\<close> or built in the source carries the source's
  message. One raised by the interpreter or by a library function (\<^verbatim>\<open>KeyError\<close> of
  a dictionary, \<^verbatim>\<open>TypeError\<close> of \<^verbatim>\<open>update(None)\<close> and of the hex codec,
  \<^verbatim>\<open>ValueError\<close> of an unpacking, \<^verbatim>\<open>IndexError\<close>, \<^verbatim>\<open>AttributeError\<close>) carries a
  text that tells the operations apart; the class and the place of the failure are what
  the model states, not the wording of the interpreter.
\<close>

datatype exn =
    TypeError string
  | KeyError "string option"
  | ValueError string
  | IndexError string
  | AttributeError string
  | Unauthorized string

definition and_then :: "exn + 'a \<Rightarrow> ('a \<Rightarrow> exn + 'b) \<Rightarrow> exn + 'b" where
  "and_then r k = (case r of Inl e \<Rightarrow> Inl e | Inr x \<Rightarrow> k x)"

text \<open>Truth value of an optional string: \<^verbatim>\<open>None\<close> and \<^verbatim>\<open>""\<close> are false.\<close>

fun truthy :: "string option \<Rightarrow> bool" where
  "truthy None = False"
| "truthy (Some s) = (s \<noteq> [])"

text \<open>\<^verbatim>\<open>"%s" % x\<close>: a string is inserted as it is, \<^verbatim>\<open>None\<close> prints as \<^verbatim>\<open>None\<close>.\<close>

fun str_of :: "string option \<Rightarrow> string" where
  "str_of None = ''None''"
| "str_of (Some s) = s"

definition startswith :: "string \<Rightarrow> string \<Rightarrow> bool" where
  "startswith s p = (take (length p) s = p)"

text \<open>\<^verbatim>\<open>s.split(c)\<close> for a one-character separator: always at least one part.\<close>

fun split_char :: "char \<Rightarrow> string \<Rightarrow> string list" where
  "split_char c [] = [[]]"
| "split_char c (x # xs) =
     (let r = split_char c xs in if x = c then [] # r else (x # hd r) # tl r)"

text \<open>\<^verbatim>\<open>s.split(c, 1)\<close>: split at the first separator only.\<close>

definition split1 :: "char \<Rightarrow> string \<Rightarrow> string list" where
  "split1 c s =
     (if c \<in> set s then [takeWhile (\<lambda>x. x \<noteq> c) s, tl (dropWhile (\<lambda>x. x \<noteq> c) s)] else [s])"

definition isspace :: "char \<Rightarrow> bool" where
  "isspace c = (c \<in> set [CHR '' '', CHR 0x09, CHR 0x0A, CHR 0x0B, CHR 0x0C, CHR 0x0D])"

definition strip :: "string \<Rightarrow> string" where
  "strip s = rev (dropWhile isspace (rev (dropWhile isspace s)))"

text \<open>\<^verbatim>\<open>s.encode('hex')\<close>: two lower-case hexadecimal digits per byte.\<close>

definition hexdigit :: "nat \<Rightarrow> char" where
  "hexdigit n = ''0123456789abcdef'' ! (n mod 16)"

fun hexlify :: "string \<Rightarrow> string" where
  "hexlify [] = []"
| "hexlify (c # cs) = hexdigit (of_char c div 16) # hexdigit (of_char c mod 16) # hexlify cs"

text \<open>
  \<^verbatim>\<open>s.decode('hex')\<close>: digits of either case are accepted; an odd length and a
  character that is no hexadecimal digit each raise \<^verbatim>\<open>TypeError\<close>.
\<close>

definition hexval :: "char \<Rightarrow> nat option" where
  "hexval c =
     (let n = (of_char c :: nat) in
      if 48 \<le> n \<and> n \<le> 57 then Some (n - 48)
      else if 97 \<le> n \<and> n \<le> 102 then Some (n - 87)
      else if 65 \<le> n \<and> n \<le> 70 then Some (n - 55)
      else None)"

fun unhex_pairs :: "string \<Rightarrow> exn + string" where
  "unhex_pairs (a # b # cs) =
     (case (hexval a, hexval b) of
        (Some h, Some l) \<Rightarrow> and_then (unhex_pairs cs) (\<lambda>r. Inr (char_of (16 * h + l) # r))
      | _ \<Rightarrow> Inl (TypeError ''Non-hexadecimal digit found''))"
| "unhex_pairs _ = Inr []"

definition unhexlify :: "string \<Rightarrow> exn + string" where
  "unhexlify s =
     (if odd (length s) then Inl (TypeError ''Odd-length string'') else unhex_pairs s)"

section \<open>The hash library\<close>

text \<open>
  \<^verbatim>\<open>md5\<close> and \<^verbatim>\<open>sha1\<close> come from \<^verbatim>\<open>hashlib\<close> and \<^verbatim>\<open>base64.encodestring\<close> from
  the standard library; none is code of this module. They are parameters of the model:
  each maps a byte string to a byte string (the raw digest, the encoded text).
  A hash object is the message fed to it so far; \<^verbatim>\<open>m.update(x)\<close> appends \<open>x\<close> and
  raises \<^verbatim>\<open>TypeError\<close> when \<open>x\<close> is \<^verbatim>\<open>None\<close>; \<^verbatim>\<open>m.digest()\<close> hashes the message.
\<close>

record pylib =
  md5 :: "string \<Rightarrow> string"
  sha1 :: "string \<Rightarrow> string"
  encodestring :: "string \<Rightarrow> string"

fun update :: "string \<Rightarrow> string option \<Rightarrow> exn + string" where
  "update m None = Inl (TypeError ''must be string or buffer, not None'')"
| "update m (Some s) = Inr (m @ s)"

fun updates :: "string \<Rightarrow> string option list \<Rightarrow> exn + string" where
  "updates m [] = Inr m"
| "updates m (x # xs) = and_then (update m x) (\<lambda>m'. updates m' xs)"

text \<open>The table \<^verbatim>\<open>algorithms\<close>; \<^verbatim>\<open>algorithms[k]\<close> raises \<^verbatim>\<open>KeyError\<close> on any other key.\<close>

definition algorithms :: "pylib \<Rightarrow> string option \<Rightarrow> exn + (string \<Rightarrow> string)" where
  "algorithms L k =
     (if k = Some ''md5'' then Inr (md5 L)
      else if k = Some ''md5-sess'' then Inr (md5 L)
      else if k = Some ''sha'' then Inr (sha1 L)
      else Inl (KeyError k))"

section \<open>The digest calculator\<close>

definition preHA1_incompatible :: exn where
  "preHA1_incompatible =
     TypeError ''preHA1 is incompatible with the pszUserName, pszRealm, and pszPassword arguments''"

definition calcHA1 ::
  "pylib \<Rightarrow> string option \<Rightarrow> string option \<Rightarrow> string option \<Rightarrow> string option \<Rightarrow>
   string option \<Rightarrow> string option \<Rightarrow> string option \<Rightarrow> exn + string" where
  "calcHA1 L pszAlg pszUserName pszRealm pszPassword pszNonce pszCNonce preHA1 =
     (if truthy preHA1 \<and> (truthy pszUserName \<or> truthy pszRealm \<or> truthy pszPassword)
      then Inl preHA1_incompatible
      else
        and_then
          (case preHA1 of
             None \<Rightarrow>
               and_then (algorithms L pszAlg) (\<lambda>h.
               and_then (updates [] [pszUserName, Some '':'', pszRealm, Some '':'', pszPassword])
                 (\<lambda>m. Inr (h m)))
           | Some p \<Rightarrow> unhexlify p)
          (\<lambda>HA1.
             if pszAlg = Some ''md5-sess'' then
               and_then (algorithms L pszAlg) (\<lambda>h.
               and_then (updates [] [Some HA1, Some '':'', pszNonce, Some '':'', pszCNonce])
                 (\<lambda>m. Inr (hexlify (h m))))
             else Inr (hexlify HA1)))"

definition calcResponse ::
  "pylib \<Rightarrow> string option \<Rightarrow> string option \<Rightarrow> string option \<Rightarrow> string option \<Rightarrow>
   string option \<Rightarrow> string option \<Rightarrow> string option \<Rightarrow> string option \<Rightarrow> string option \<Rightarrow>
   exn + string" where
  "calcResponse L HA1 algo pszNonce pszNonceCount pszCNonce pszQop pszMethod pszDigestUri pszHEntity =
     and_then (algorithms L algo) (\<lambda>h.
     and_then
       (updates []
          ([pszMethod, Some '':'', pszDigestUri] @
           (if pszQop = Some ''auth-int'' then [Some '':'', pszHEntity] else [])))
       (\<lambda>m2.
          let HA2 = hexlify (h m2) in
          and_then (algorithms L algo) (\<lambda>h'.
          and_then
            (updates []
               ([HA1, Some '':'', pszNonce, Some '':''] @
                (if truthy pszNonceCount \<and> truthy pszCNonce \<and> truthy pszQop
                 then [pszNonceCount, Some '':'', pszCNonce, Some '':'', pszQop, Some '':'']
                 else []) @
                [Some HA2]))
            (\<lambda>m. Inr (hexlify (h' m))))))"

section \<open>The 401 handler of \<open>AuthorizedHTTPGetter\<close>\<close>

text \<open>
  The factory is the object that lives through one request cycle. An attribute that the
  handler tests with \<^verbatim>\<open>hasattr\<close> (\<^verbatim>\<open>username\<close>, \<^verbatim>\<open>retried\<close>) or reads without a
  test (\<^verbatim>\<open>password\<close>) may be absent: \<open>username\<close> and \<open>password\<close> are \<open>None\<close> when the
  attribute is not set, and \<open>retried\<close> is whether the attribute exists. The dictionary
  \<^verbatim>\<open>factory.headers\<close> is an association list with unique keys, here
  \<open>request_headers\<close>; \<^verbatim>\<open>factory.method\<close> is \<open>http_method\<close>.
\<close>

record factory =
  username :: "string option"
  password :: "string option"
  retried :: bool
  request_headers :: "(string \<times> string) list"
  http_method :: string
  url :: string
  scheme :: string
  host :: string
  port :: nat

text \<open>
  The protocol object: \<^verbatim>\<open>self.headers\<close> maps a lower-cased header name to the list of
  the values received under it; \<open>connected\<close> is the state of \<^verbatim>\<open>self.transport\<close>.
\<close>

record getter =
  quietLoss :: nat
  connected :: bool
  headers :: "(string \<times> string list) list"
  factory :: factory

text \<open>\<^verbatim>\<open>GAIEndpoint(reactor, host, port[, ssl.ClientContextFactory()])\<close>.\<close>

datatype endpoint = GAIEndpoint string nat bool

text \<open>
  What one call of the handler does besides updating the objects: it fails the
  deferred with \<^verbatim>\<open>factory.deferred.errback(failure.Failure(..))\<close> (\<open>Errback\<close>), it calls
  \<^verbatim>\<open>connect(endpoint, factory)\<close>, which resends the request of the factory over a new
  connection (\<open>Connect\<close>), or it lets an exception escape (\<open>Raise\<close>).
\<close>

datatype outcome = Errback exn | Connect endpoint | Raise exn

type_synonym details = "(string \<times> string) list"

definition unq :: "string \<Rightarrow> exn + string" where
  \<open>unq s =
     (if s = [] then Inl (IndexError ''string index out of range'')
      else if hd s = last s \<and> last s = CHR 0x22 then Inr (butlast (tl s))
      else Inr s)\<close>

text \<open>
  \<^verbatim>\<open>for (k, v) in [p.split('=', 1) for p in parts]: details[k.strip()] = unq(v.strip())\<close>.
  A part without \<^verbatim>\<open>=\<close> is a list of one element and the unpacking raises.
\<close>

fun store_pairs :: "string list list \<Rightarrow> details \<Rightarrow> exn + details" where
  "store_pairs [] d = Inr d"
| "store_pairs ([k, v] # rest) d =
     and_then (unq (strip v)) (\<lambda>u. store_pairs rest (AList.update (strip k) u d))"
| "store_pairs (_ # rest) d = Inl (ValueError ''need more than 1 value to unpack'')"

text \<open>
  The loop over the values of \<^verbatim>\<open>www-authenticate\<close> (lines 385 to 397), on the triple
  \<open>(basicAvailable, digestAvailable, details)\<close>. \<^verbatim>\<open>startswith\<close> compares bytes, and
  the directives of every Digest value are stored into the same dictionary.
\<close>

fun scan_items :: "string list \<Rightarrow> bool \<times> bool \<times> details \<Rightarrow> exn + (bool \<times> bool \<times> details)" where
  "scan_items [] st = Inr st"
| "scan_items (item # items) (basicAvailable, digestAvailable, d) =
     (let basicAvailable' = (if startswith item ''basic '' then True else basicAvailable) in
      if startswith item ''digest '' then
        and_then (store_pairs (map (split1 CHR ''='') (split_char CHR '','' (drop 7 item))) d)
          (\<lambda>d'. scan_items items (basicAvailable', True, d'))
      else scan_items items (basicAvailable', digestAvailable, d))"

definition scan_wwwauth :: "string list option \<Rightarrow> exn + (bool \<times> bool \<times> details)" where
  \<open>scan_wwwauth wwwauth =
     (case wwwauth of
        None \<Rightarrow> Inl (TypeError ([CHR 0x27] @ ''NoneType'' @ [CHR 0x27] @ '' object is not iterable''))
      | Some items \<Rightarrow> scan_items items (False, False, []))\<close>

text \<open>
  The value of the \<^verbatim>\<open>Authorization\<close> header of the Digest branch (lines 403 to 450):
  the response digest from \<open>calcHA1\<close> and \<open>calcResponse\<close> on the directives of the
  challenge, with \<^verbatim>\<open>None\<close> as entity hash, then one of the two formats.
\<close>

definition digest_authorization ::
  "pylib \<Rightarrow> details \<Rightarrow> string \<Rightarrow> string \<Rightarrow> string \<Rightarrow> string \<Rightarrow> exn + string" where
  \<open>digest_authorization L d user pswd meth uri =
     (let get = map_of d in
      and_then
        (calcHA1 L (get ''algorithm'') (Some user) (get ''realm'') (Some pswd)
           (get ''nonce'') (get ''cnonce'') None)
        (\<lambda>HA1.
      and_then
        (calcResponse L (Some HA1) (get ''algorithm'') (get ''nonce'') (get ''nc'')
           (get ''cnonce'') (get ''qop'') (Some meth) (Some uri) None)
        (\<lambda>digest.
           if truthy (get ''qop'') then
             Inr (''Digest username="'' @ user @ ''", realm="'' @ str_of (get ''realm'') @
                  ''", nonce="'' @ str_of (get ''nonce'') @ ''", uri="'' @ uri @
                  ''", response='' @ digest @ '', algorithm='' @ str_of (get ''algorithm'') @
                  '', cnonce="'' @ str_of (get ''cnonce'') @ ''", qop='' @ str_of (get ''qop'') @
                  '', nc='' @ str_of (get ''nc''))
           else
             Inr (''Digest username="'' @ user @ ''", realm="'' @ str_of (get ''realm'') @
                  ''", nonce="'' @ str_of (get ''nonce'') @ ''", uri="'' @ uri @
                  ''", response='' @ digest @ '', algorithm='' @ str_of (get ''algorithm'')))))\<close>

text \<open>
  The value of the \<^verbatim>\<open>Authorization\<close> header of the Basic branch (lines 468 to 470):
  \<^verbatim>\<open>("Basic " + base64.encodestring(user + ":" + pswd)).replace("\n", "")\<close>.
\<close>

definition basic_authorization :: "pylib \<Rightarrow> string \<Rightarrow> string \<Rightarrow> string" where
  "basic_authorization L user pswd =
     filter (\<lambda>c. c \<noteq> CHR 0x0A) (''Basic '' @ encodestring L (user @ '':'' @ pswd))"

text \<open>
  Modelled from the spec: \<^verbatim>\<open>connect\<close>. The handler calls \<^verbatim>\<open>connect(GAIEndpoint(..),
  self.factory)\<close> at lines 454 to 462 and 474 to 482, with the SSL context factory when
  \<^verbatim>\<open>factory.scheme\<close> is \<^verbatim>\<open>https\<close>. The function is not defined in the module, and
  the module has no import that binds the name (only \<^verbatim>\<open>GAIEndpoint\<close> is imported from
  \<^verbatim>\<open>twext.internet\<close>). It is taken to be what the spec describes: the request is
  reissued with the new \<^verbatim>\<open>Authorization\<close> header over a fresh connection to the same
  host, port and scheme. The model records the call as the outcome \<open>Connect\<close>.
\<close>

definition reconnect :: "factory \<Rightarrow> outcome" where
  "reconnect f = Connect (GAIEndpoint (host f) (port f) (scheme f = ''https''))"

definition unsupported :: exn where
  \<open>unsupported = Unauthorized
     (''Mail gateway not able to process reply; calendar server returned 401 and doesn'' @
      [CHR 0x27] @ ''t support basic or digest'')\<close>

definition set_authorization :: "string \<Rightarrow> getter \<Rightarrow> getter" where
  "set_authorization v self =
     self\<lparr>factory := (factory self)\<lparr>request_headers :=
       AList.update ''Authorization'' v (request_headers (factory self))\<rparr>\<rparr>"

definition set_retried :: "getter \<Rightarrow> getter" where
  "set_retried self = self\<lparr>factory := (factory self)\<lparr>retried := True\<rparr>\<rparr>"

text \<open>
  The handler from \<^verbatim>\<open>self.factory.retried = True\<close> on (lines 379 to 489), for a
  factory with a user name. The flag is set first and stays set on every path. The
  password is read after the scan, and a factory without the attribute raises there.
\<close>

definition authorize :: "pylib \<Rightarrow> string \<Rightarrow> getter \<Rightarrow> getter \<times> outcome" where
  "authorize L user self1 =
     (let self = set_retried self1 in
      (case scan_wwwauth (map_of (headers self) ''www-authenticate'') of
         Inl e \<Rightarrow> (self, Raise e)
       | Inr (basicAvailable, digestAvailable, d) \<Rightarrow>
           (case password (factory self) of
              None \<Rightarrow> (self, Raise (AttributeError ''password''))
            | Some pswd \<Rightarrow>
                (if digestAvailable \<and> d \<noteq> [] then
                   (case digest_authorization L d user pswd
                           (http_method (factory self)) (url (factory self)) of
                      Inl e \<Rightarrow> (self, Raise e)
                    | Inr response \<Rightarrow>
                        (set_authorization response self, reconnect (factory self)))
                 else if basicAvailable then
                   (set_authorization (basic_authorization L user pswd) self,
                    reconnect (factory self))
                 else (self, Errback unsupported)))))"

text \<open>
  The whole handler (lines 366 to 489): the connection of this protocol object is
  closed, then the two guards on the factory, then the authorisation.
\<close>

definition handleStatus_401 :: "pylib \<Rightarrow> getter \<Rightarrow> getter \<times> outcome" where
  "handleStatus_401 L self0 =
     (let self = self0\<lparr>quietLoss := 1, connected := False\<rparr> in
      (case username (factory self) of
         None \<Rightarrow> (self, Errback (Unauthorized ''Authentication required''))
       | Some user \<Rightarrow>
           (if retried (factory self) then
              (self, Errback (Unauthorized
                 (''Could not authenticate user '' @ user @ '' with calendar server'')))
            else authorize L user self)))"

section \<open>A request cycle and sample data\<close>

text \<open>
  One request cycle is one factory. Every connection of the cycle gets a protocol
  object of its own, with the headers of its response, and shares the factory.
  \<open>replay\<close> runs the handler on the successive 401 responses of a cycle, whatever the
  handler answered before, and lists the outcomes.
\<close>

definition fresh_getter :: "factory \<Rightarrow> (string \<times> string list) list \<Rightarrow> getter" where
  "fresh_getter f hs = \<lparr>quietLoss = 0, connected = True, headers = hs, factory = f\<rparr>"

fun replay :: "pylib \<Rightarrow> factory \<Rightarrow> (string \<times> string list) list list \<Rightarrow> outcome list" where
  "replay L f [] = []"
| "replay L f (hs # rest) =
     (let r = handleStatus_401 L (fresh_getter f hs)
      in snd r # replay L (factory (fst r)) rest)"

fun is_Connect :: "outcome \<Rightarrow> bool" where
  "is_Connect (Connect _) = True"
| "is_Connect _ = False"

text \<open>
  Stand-ins for the library functions, used only to run the model on concrete inputs:
  each wraps its argument in a tag, so that a computed value shows which function was
  applied to which message.
\<close>

definition sample_lib :: pylib where
  "sample_lib =
     \<lparr>md5 = (\<lambda>s. ''md5('' @ s @ '')''),
      sha1 = (\<lambda>s. ''sha1('' @ s @ '')''),
      encodestring = (\<lambda>s. ''b64('' @ s @ '')'' @ [CHR 0x0A])\<rparr>"

definition sample_factory :: factory where
  "sample_factory =
     \<lparr>username = Some ''user01'', password = Some ''secret'', retried = False,
      request_headers = [], http_method = ''GET'', url = ''/calendars/'',
      scheme = ''https'', host = ''localhost'', port = 8443\<rparr>"

text \<open>A protocol object of the sample factory that received the given challenges.\<close>

definition sample_getter :: "string list \<Rightarrow> getter" where
  "sample_getter items = fresh_getter sample_factory [(''www-authenticate'', items)]"

text \<open>The response headers of a server that offers Basic only.\<close>

definition basic_only :: "(string \<times> string list) list" where
  \<open>basic_only = [(''www-authenticate'', [''basic realm="calendar"''])]\<close>

section \<open>Basic facts\<close>

lemma and_then_Inr [simp]: "and_then (Inr x) k = k x"
  by (simp add: and_then_def)

lemma and_then_Inl [simp]: "and_then (Inl e) k = Inl e"
  by (simp add: and_then_def)

lemma update_Inl: "update m x = Inl e \<Longrightarrow> e = TypeError ''must be string or buffer, not None''"
  by (cases x) auto

lemma unhex_pairs_Inl: "unhex_pairs s = Inl e \<Longrightarrow> e = TypeError ''Non-hexadecimal digit found''"
proof (induction s arbitrary: e rule: unhex_pairs.induct)
  case (1 a b cs)
  then show ?case
    by (auto simp: and_then_def split: option.splits sum.splits)
qed simp_all

lemma unhexlify_Inl:
  "unhexlify s = Inl e \<Longrightarrow>
   e = TypeError ''Odd-length string'' \<or> e = TypeError ''Non-hexadecimal digit found''"
  by (auto simp: unhexlify_def split: if_splits dest: unhex_pairs_Inl)

lemma algorithms_Inl: "algorithms L k = Inl e \<Longrightarrow> e = KeyError k"
  by (auto simp: algorithms_def split: if_splits)

lemma algorithms_md5 [simp]: "algorithms L (Some ''md5'') = Inr (md5 L)"
  by (simp add: algorithms_def)

lemma algorithms_md5_sess [simp]: "algorithms L (Some ''md5-sess'') = Inr (md5 L)"
  by (simp add: algorithms_def)

lemma algorithms_sha [simp]: "algorithms L (Some ''sha'') = Inr (sha1 L)"
  by (simp add: algorithms_def)

lemma hexdigit_lower: "hexdigit n \<in> set ''0123456789abcdef''"
proof -
  have "n mod 16 < length ''0123456789abcdef''" by simp
  then show ?thesis unfolding hexdigit_def by (rule nth_mem)
qed

lemma hexlify_lower: "set (hexlify s) \<subseteq> set ''0123456789abcdef''"
proof (induction s)
  case Nil
  then show ?case by simp
next
  case (Cons c cs)
  have "hexdigit (of_char c div 16) \<in> set ''0123456789abcdef''"
    and "hexdigit (of_char c mod 16) \<in> set ''0123456789abcdef''"
    by (rule hexdigit_lower)+
  with Cons show ?case by simp
qed

lemma hexlify_length: "length (hexlify s) = 2 * length s"
  by (induction s) simp_all

lemma calcHA1_else_error:
  assumes "\<not> (truthy pre \<and> (truthy u \<or> truthy r \<or> truthy p))"
    and "calcHA1 L alg u r p n c pre = Inl e"
  shows "e \<noteq> preHA1_incompatible"
proof -
  from assms have "e = KeyError alg \<or> e = TypeError ''must be string or buffer, not None''
     \<or> e = TypeError ''Odd-length string'' \<or> e = TypeError ''Non-hexadecimal digit found''"
    unfolding calcHA1_def
    by (auto simp: and_then_def split: if_splits sum.splits option.splits
        dest: update_Inl unhexlify_Inl algorithms_Inl)
  then show ?thesis by (auto simp: preHA1_incompatible_def)
qed

section \<open>Facts about the handler\<close>

lemma handle_no_user:
  "username (factory g) = None \<Longrightarrow>
   handleStatus_401 L g =
     (g\<lparr>quietLoss := 1, connected := False\<rparr>, Errback (Unauthorized ''Authentication required''))"
  by (simp add: handleStatus_401_def)

lemma handle_retried:
  "username (factory g) = Some u \<Longrightarrow> retried (factory g) \<Longrightarrow>
   handleStatus_401 L g =
     (g\<lparr>quietLoss := 1, connected := False\<rparr>,
      Errback (Unauthorized (''Could not authenticate user '' @ u @ '' with calendar server'')))"
  by (simp add: handleStatus_401_def)

lemma handle_first:
  "username (factory g) = Some u \<Longrightarrow> \<not> retried (factory g) \<Longrightarrow>
   handleStatus_401 L g = authorize L u (g\<lparr>quietLoss := 1, connected := False\<rparr>)"
  by (simp add: handleStatus_401_def)

lemma factory_set_authorization:
  "factory (set_authorization v g) =
     (factory g)\<lparr>request_headers := AList.update ''Authorization'' v (request_headers (factory g))\<rparr>"
  by (simp add: set_authorization_def)

lemma authorize_factory:
  "retried (factory (fst (authorize L u g))) \<and>
   username (factory (fst (authorize L u g))) = username (factory g)"
  by (simp add: authorize_def set_retried_def factory_set_authorization Let_def
      split: sum.split option.split prod.split)

lemma handle_with_user:
  assumes "username (factory g) = Some u"
  shows "retried (factory (fst (handleStatus_401 L g))) \<and>
         username (factory (fst (handleStatus_401 L g))) = Some u"
proof (cases "retried (factory g)")
  case True
  with assms show ?thesis by (simp add: handle_retried)
next
  case False
  with assms authorize_factory [of L u "g\<lparr>quietLoss := 1, connected := False\<rparr>"]
  show ?thesis by (simp add: handle_first)
qed

lemma replay_retried: "retried f \<Longrightarrow> filter is_Connect (replay L f hss) = []"
proof (induction hss)
  case Nil
  then show ?case by simp
next
  case (Cons hs rest)
  show ?case
  proof (cases "username f")
    case None
    with Cons show ?thesis
      by (simp add: handle_no_user fresh_getter_def Let_def)
  next
    case (Some u)
    with Cons show ?thesis
      by (simp add: handle_retried fresh_getter_def Let_def)
  qed
qed

lemma replay_no_user: "username f = None \<Longrightarrow> filter is_Connect (replay L f hss) = []"
  by (induction hss) (simp_all add: handle_no_user fresh_getter_def Let_def)

lemma replay_at_most_one: "length (filter is_Connect (replay L f hss)) \<le> 1"
proof (cases hss)
  case Nil
  then show ?thesis by simp
next
  case (Cons hs rest)
  show ?thesis
  proof (cases "username f")
    case None
    then show ?thesis by (simp add: replay_no_user)
  next
    case (Some u)
    then have "retried (factory (fst (handleStatus_401 L (fresh_getter f hs))))"
      using handle_with_user [of "fresh_getter f hs" u L] by (simp add: fresh_getter_def)
    then have "filter is_Connect
        (replay L (factory (fst (handleStatus_401 L (fresh_getter f hs)))) rest) = []"
      by (rule replay_retried)
    with Cons show ?thesis by (simp add: Let_def)
  qed
qed

lemma update_nonempty: "AList.update k v d \<noteq> []"
  by (cases d) simp_all

lemma split_char_nonempty: "split_char c s \<noteq> []"
  by (induction s) (simp_all add: Let_def)

lemma store_pairs_nonempty:
  "store_pairs ps d = Inr d' \<Longrightarrow> ps \<noteq> [] \<or> d \<noteq> [] \<Longrightarrow> d' \<noteq> []"
proof (induction ps d arbitrary: d' rule: store_pairs.induct)
  case (1 d)
  then show ?case by simp
next
  case (2 k v rest d)
  from "2.prems"(1) obtain u where u: "unq (strip v) = Inr u"
    and rest: "store_pairs rest (AList.update (strip k) u d) = Inr d'"
    by (cases "unq (strip v)") simp_all
  from "2.IH" [OF rest] show ?case by (simp add: update_nonempty)
qed simp_all

lemma scan_items_flags:
  "scan_items items (b, dg, d) = Inr (b', dg', d') \<Longrightarrow>
   b' = (b \<or> (\<exists>i \<in> set items. startswith i ''basic '')) \<and>
   dg' = (dg \<or> (\<exists>i \<in> set items. startswith i ''digest '')) \<and>
   ((dg \<longrightarrow> d \<noteq> []) \<longrightarrow> (dg' \<longrightarrow> d' \<noteq> []))"
proof (induction items arbitrary: b dg d)
  case Nil
  then show ?case by simp
next
  case (Cons item items)
  show ?case
  proof (cases "startswith item ''digest ''")
    case True
    let ?ps = "map (split1 CHR ''='') (split_char CHR '','' (drop 7 item))"
    from Cons.prems True obtain d1 where d1: "store_pairs ?ps d = Inr d1"
      and rest: "scan_items items (if startswith item ''basic '' then True else b, True, d1) =
        Inr (b', dg', d')"
      by (cases "store_pairs ?ps d") (simp_all add: Let_def)
    have "d1 \<noteq> []"
      using store_pairs_nonempty [OF d1] by (simp add: split_char_nonempty)
    with Cons.IH [OF rest] True show ?thesis by auto
  next
    case False
    with Cons.prems
    have rest: "scan_items items (if startswith item ''basic '' then True else b, dg, d) =
        Inr (b', dg', d')"
      by (simp add: Let_def)
    from Cons.IH [OF rest] False show ?thesis by auto
  qed
qed

lemma scan_wwwauth_flags:
  assumes "scan_wwwauth w = Inr (b, dg, d)"
  shows "\<exists>items. w = Some items \<and>
     b = (\<exists>i \<in> set items. startswith i ''basic '') \<and>
     dg = (\<exists>i \<in> set items. startswith i ''digest '') \<and>
     (dg \<longrightarrow> d \<noteq> [])"
proof (cases w)
  case None
  with assms show ?thesis by (simp add: scan_wwwauth_def)
next
  case (Some items)
  with assms have "scan_items items (False, False, []) = Inr (b, dg, d)"
    by (simp add: scan_wwwauth_def)
  from scan_items_flags [OF this] Some show ?thesis by simp
qed

lemma startswith_iff: "startswith s p \<longleftrightarrow> (\<exists>rest. s = p @ rest)"
  unfolding startswith_def
  by (metis append_eq_conv_conj append_take_drop_id)

lemma digest_authorization_prefix:
  "digest_authorization L d u p m uri = Inr resp \<Longrightarrow> startswith resp ''Digest ''"
  unfolding digest_authorization_def Let_def
  by (auto simp: and_then_def startswith_def split: sum.splits if_splits)

lemma basic_authorization_prefix: "startswith (basic_authorization L u p) ''Basic ''"
  by (simp add: basic_authorization_def startswith_def)

lemma authorize_parsed:
  assumes scan: "scan_wwwauth (map_of (headers g) ''www-authenticate'') = Inr (b, dg, d)"
    and pw: "password (factory g) = Some p"
  shows "authorize L u g =
    (if dg then
       (case digest_authorization L d u p (http_method (factory g)) (url (factory g)) of
          Inl e \<Rightarrow> (set_retried g, Raise e)
        | Inr resp \<Rightarrow> (set_authorization resp (set_retried g), reconnect (factory g)))
     else if b then
       (set_authorization (basic_authorization L u p) (set_retried g), reconnect (factory g))
     else (set_retried g, Errback unsupported))"
proof -
  from scan_wwwauth_flags [OF scan] have "dg \<longrightarrow> d \<noteq> []" by blast
  with scan pw show ?thesis
    by (simp add: authorize_def Let_def set_retried_def reconnect_def split: sum.split)
qed

lemma authorize_unparsed:
  "scan_wwwauth (map_of (headers g) ''www-authenticate'') = Inl e \<Longrightarrow>
   authorize L u g = (set_retried g, Raise e)"
  by (simp add: authorize_def Let_def set_retried_def)

lemma map_of_set_authorization:
  "map_of (request_headers (factory (set_authorization v g))) ''Authorization'' = Some v"
  by (simp add: set_authorization_def update_conv')

lemma handle_parsed:
  assumes "username (factory g) = Some u" and "\<not> retried (factory g)"
    and "password (factory g) = Some p"
    and "scan_wwwauth (map_of (headers g) ''www-authenticate'') = Inr (b, dg, d)"
  shows "handleStatus_401 L g =
    (if dg then
       (case digest_authorization L d u p (http_method (factory g)) (url (factory g)) of
          Inl e \<Rightarrow> (set_retried (g\<lparr>quietLoss := 1, connected := False\<rparr>), Raise e)
        | Inr resp \<Rightarrow>
            (set_authorization resp (set_retried (g\<lparr>quietLoss := 1, connected := False\<rparr>)),
             reconnect (factory g)))
     else if b then
       (set_authorization (basic_authorization L u p)
          (set_retried (g\<lparr>quietLoss := 1, connected := False\<rparr>)),
        reconnect (factory g))
     else (set_retried (g\<lparr>quietLoss := 1, connected := False\<rparr>), Errback unsupported))"
  using assms
    authorize_parsed [of "g\<lparr>quietLoss := 1, connected := False\<rparr>" b dg d p L u]
  by (simp add: handle_first split: sum.split)

lemma handle_unparsed:
  assumes "username (factory g) = Some u" and "\<not> retried (factory g)"
    and "scan_wwwauth (map_of (headers g) ''www-authenticate'') = Inl e"
  shows "handleStatus_401 L g =
    (set_retried (g\<lparr>quietLoss := 1, connected := False\<rparr>), Raise e)"
  using assms authorize_unparsed [of "g\<lparr>quietLoss := 1, connected := False\<rparr>" e L u]
  by (simp add: handle_first)



lemma startswith_Digest_not_Basic: "startswith v ''Digest '' \<Longrightarrow> \<not> startswith v ''Basic ''"
  by (auto simp: startswith_iff)

lemma basic_authorization_no_newline: "CHR 0x0A \<notin> set (basic_authorization L u p)"
  by (simp add: basic_authorization_def)

lemma unq_quoted: "unq (CHR 0x22 # s @ [CHR 0x22]) = Inr s"
  by (simp add: unq_def)




section \<open>The digest calculator: claims C2, C3 and C7\<close>

text \<open>
  Claim C2. For string arguments and no precomputed HA1, \<open>calcHA1\<close> with algorithm
  \<^verbatim>\<open>md5\<close> or \<^verbatim>\<open>sha\<close> returns the lower-case hexadecimal text of the digest of
  \<^verbatim>\<open>username:realm:password\<close>, under MD5 for \<^verbatim>\<open>md5\<close> and SHA-1 for \<^verbatim>\<open>sha\<close>, with
  no second hash; with \<^verbatim>\<open>md5-sess\<close> it returns the hexadecimal text of the MD5 digest of
  the raw first digest followed by \<^verbatim>\<open>:nonce:cnonce\<close>. When a precomputed HA1 is given
  (and no user name, realm or password), its hex-decoded bytes take the place of the
  first digest. The hexadecimal text has two characters per byte, all among
  \<^verbatim>\<open>0123456789abcdef\<close>.
\<close>

theorem calcHA1_value:
  "calcHA1 L (Some ''md5'') (Some u) (Some r) (Some p) n c None =
     Inr (hexlify (md5 L (u @ '':'' @ r @ '':'' @ p))) \<and>
   calcHA1 L (Some ''sha'') (Some u) (Some r) (Some p) n c None =
     Inr (hexlify (sha1 L (u @ '':'' @ r @ '':'' @ p))) \<and>
   calcHA1 L (Some ''md5-sess'') (Some u) (Some r) (Some p) (Some n') (Some c') None =
     Inr (hexlify (md5 L (md5 L (u @ '':'' @ r @ '':'' @ p) @ '':'' @ n' @ '':'' @ c'))) \<and>
   (\<not> truthy u' \<and> \<not> truthy r' \<and> \<not> truthy p' \<and> unhexlify pre = Inr raw \<longrightarrow>
      calcHA1 L (Some ''md5-sess'') u' r' p' (Some n') (Some c') (Some pre) =
        Inr (hexlify (md5 L (raw @ '':'' @ n' @ '':'' @ c'))) \<and>
      (alg \<noteq> Some ''md5-sess'' \<longrightarrow>
         calcHA1 L alg u' r' p' n c (Some pre) = Inr (hexlify raw))) \<and>
   set (hexlify x) \<subseteq> set ''0123456789abcdef'' \<and> length (hexlify x) = 2 * length x"
  using hexlify_lower [of x] hexlify_length [of x] by (simp add: calcHA1_def)

theorem calcHA1_value_witness:
  "unhexlify ''617A'' = Inr ''az'' \<and>
   calcHA1 sample_lib (Some ''md5-sess'') None None None (Some ''n1'') (Some ''c1'')
     (Some ''617A'') = Inr (hexlify (''md5(az:n1:c1)'')) \<and>
   calcHA1 sample_lib (Some ''md5'') None None None None None (Some ''617A'') = Inr ''617a''"
proof -
  have dec: "unhexlify ''617A'' = Inr ''az''"
    by code_simp
  have hex: "hexlify ''az'' = ''617a''"
    by (simp add: hexdigit_def)
  have alg: "Some ''md5'' \<noteq> Some ''md5-sess''" by simp
  from calcHA1_value [where L = sample_lib and u' = None and r' = None and p' = None
      and pre = "''617A''" and raw = "''az''" and n' = "''n1''" and c' = "''c1''"
      and alg = "Some ''md5''" and n = None and c = None] dec hex alg
  show ?thesis by (simp add: sample_lib_def)
qed

text \<open>
  Claim C3. For string arguments and a supported algorithm with hash \<open>h\<close>,
  \<open>calcResponse\<close> hashes \<^verbatim>\<open>method:digestUri\<close>, followed by \<^verbatim>\<open>:entityHash\<close> when qop is
  \<^verbatim>\<open>auth-int\<close>, into HA2 and hex-encodes it. When nonce count, cnonce and qop are all
  present (not \<^verbatim>\<open>None\<close> and not empty) the result is the hexadecimal text of
  \<open>h(HA1:nonce:nonceCount:cnonce:qop:HA2)\<close>; otherwise it is that of \<open>h(HA1:nonce:HA2)\<close>.
  The algorithm name selects only the hash function.
\<close>

theorem calcResponse_value:
  assumes alg: "algorithms L algo = Inr h"
    and ent: "pszQop = Some ''auth-int'' \<longrightarrow> pszHEntity = Some e"
  shows
   "(pszNonceCount = Some nc \<and> nc \<noteq> [] \<and> pszCNonce = Some cn \<and> cn \<noteq> [] \<and>
     pszQop = Some q \<and> q \<noteq> [] \<longrightarrow>
       calcResponse L (Some HA1) algo (Some nonce) pszNonceCount pszCNonce pszQop
         (Some meth) (Some uri) pszHEntity =
       Inr (hexlify (h (HA1 @ '':'' @ nonce @ '':'' @ nc @ '':'' @ cn @ '':'' @ q @ '':'' @
              hexlify (h (meth @ '':'' @ uri @ (if q = ''auth-int'' then '':'' @ e else []))))))) \<and>
    (\<not> (truthy pszNonceCount \<and> truthy pszCNonce \<and> truthy pszQop) \<longrightarrow>
       calcResponse L (Some HA1) algo (Some nonce) pszNonceCount pszCNonce pszQop
         (Some meth) (Some uri) pszHEntity =
       Inr (hexlify (h (HA1 @ '':'' @ nonce @ '':'' @
              hexlify (h (meth @ '':'' @ uri @
                 (if pszQop = Some ''auth-int'' then '':'' @ e else []))))))) \<and>
    (algo = Some ''md5'' \<or> algo = Some ''md5-sess'' \<longrightarrow> h = md5 L) \<and>
    (algo = Some ''sha'' \<longrightarrow> h = sha1 L)"
  using assms by (auto simp: calcResponse_def)

theorem calcResponse_value_witness:
  "algorithms sample_lib (Some ''sha'') = Inr (sha1 sample_lib) \<and>
   calcResponse sample_lib (Some ''ha1'') (Some ''sha'') (Some ''n1'') (Some ''01'')
     (Some ''c1'') (Some ''auth-int'') (Some ''GET'') (Some ''/x'') (Some ''ent'') =
     Inr (hexlify (''sha1(ha1:n1:01:c1:auth-int:'' @ hexlify ''sha1(GET:/x:ent)'' @ '')'')) \<and>
   calcResponse sample_lib (Some ''ha1'') (Some ''sha'') (Some ''n1'') None
     (Some ''c1'') (Some ''auth-int'') (Some ''GET'') (Some ''/x'') (Some ''ent'') =
     Inr (hexlify (''sha1(ha1:n1:'' @ hexlify ''sha1(GET:/x:ent)'' @ '')''))"
proof -
  have alg: "algorithms sample_lib (Some ''sha'') = Inr (sha1 sample_lib)" by simp
  have ent: "Some ''auth-int'' = Some ''auth-int'' \<longrightarrow> Some ''ent'' = Some ''ent''" by simp
  have sha: "sha1 sample_lib = (\<lambda>s. ''sha1('' @ s @ '')'')" by (simp add: sample_lib_def)
  from calcResponse_value [OF alg ent, where nc = "''01''" and cn = "''c1''"
      and q = "''auth-int''" and pszNonceCount = "Some ''01''" and pszCNonce = "Some ''c1''"
      and ?HA1.0 = "''ha1''" and nonce = "''n1''" and meth = "''GET''" and uri = "''/x''"]
    calcResponse_value [OF alg ent, where pszNonceCount = None and pszCNonce = "Some ''c1''"
      and ?HA1.0 = "''ha1''" and nonce = "''n1''" and meth = "''GET''" and uri = "''/x''"]
    alg sha
  show ?thesis by simp
qed

text \<open>
  Claim C7. \<open>calcHA1\<close> raises its contract error (the \<^verbatim>\<open>TypeError\<close> "preHA1 is
  incompatible with ...") exactly when a precomputed HA1 is supplied together with a
  user name, a realm or a password. The guard tests truth values, so a value counts as
  supplied when it is neither \<^verbatim>\<open>None\<close> nor the empty string. Every other failure
  of \<open>calcHA1\<close> is a different exception.
\<close>

theorem calcHA1_incompatible_iff:
  "calcHA1 L alg u r p n c pre = Inl preHA1_incompatible \<longleftrightarrow>
   truthy pre \<and> (truthy u \<or> truthy r \<or> truthy p)"
proof
  assume "calcHA1 L alg u r p n c pre = Inl preHA1_incompatible"
  then show "truthy pre \<and> (truthy u \<or> truthy r \<or> truthy p)"
    using calcHA1_else_error by blast
next
  assume "truthy pre \<and> (truthy u \<or> truthy r \<or> truthy p)"
  then show "calcHA1 L alg u r p n c pre = Inl preHA1_incompatible"
    by (simp add: calcHA1_def)
qed

theorem calcHA1_incompatible_iff_witness:
  "calcHA1 sample_lib (Some ''md5'') (Some ''user01'') None None None None (Some ''617a'') =
     Inl preHA1_incompatible \<and>
   calcHA1 sample_lib (Some ''md5'') (Some ''user01'') (Some ''r'') (Some ''pw'') None None None \<noteq>
     Inl preHA1_incompatible"
  using calcHA1_incompatible_iff [of sample_lib "Some ''md5''" "Some ''user01''" None None
      None None "Some ''617a''"]
    calcHA1_incompatible_iff [of sample_lib "Some ''md5''" "Some ''user01''" "Some ''r''"
      "Some ''pw''" None None None]
  by simp

section \<open>The 401 handler: claims C1, C4, C5, C6, C8, C9 and C10\<close>

text \<open>
  Claim C1. A request cycle retries at most once. With a user name configured, the
  first 401 sets the \<open>retried\<close> flag before anything else can fail; a 401 that finds the
  flag set fails the deferred with \<^verbatim>\<open>Unauthorized\<close>, "Could not authenticate user
  <username> with calendar server", and leaves the factory as it was, so that nothing is
  resent. Hence the second of two consecutive 401 responses always yields that error,
  whatever the challenges say, and over any sequence of 401 responses of one factory at
  most one outcome is a reconnection.
\<close>

theorem one_retry_per_cycle:
  "(username (factory g) = Some u \<and> \<not> retried (factory g) \<longrightarrow>
      retried (factory (fst (handleStatus_401 L g)))) \<and>
   (username (factory g) = Some u \<and> retried (factory g) \<longrightarrow>
      handleStatus_401 L g =
        (g\<lparr>quietLoss := 1, connected := False\<rparr>,
         Errback (Unauthorized
           (''Could not authenticate user '' @ u @ '' with calendar server'')))) \<and>
   (username f = Some u \<longrightarrow>
      (\<exists>out. replay L f [hs1, hs2] =
         [out, Errback (Unauthorized
           (''Could not authenticate user '' @ u @ '' with calendar server''))])) \<and>
   length (filter is_Connect (replay L f hss)) \<le> 1"
proof (intro conjI impI)
  assume "username (factory g) = Some u \<and> \<not> retried (factory g)"
  then show "retried (factory (fst (handleStatus_401 L g)))"
    by (simp add: handle_with_user)
next
  assume "username (factory g) = Some u \<and> retried (factory g)"
  then show "handleStatus_401 L g =
        (g\<lparr>quietLoss := 1, connected := False\<rparr>,
         Errback (Unauthorized
           (''Could not authenticate user '' @ u @ '' with calendar server'')))"
    by (simp add: handle_retried)
next
  assume u: "username f = Some u"
  define f' where "f' = factory (fst (handleStatus_401 L (fresh_getter f hs1)))"
  from u have "retried f' \<and> username f' = Some u"
    unfolding f'_def using handle_with_user [of "fresh_getter f hs1" u L]
    by (simp add: fresh_getter_def)
  then have "snd (handleStatus_401 L (fresh_getter f' hs2)) =
      Errback (Unauthorized (''Could not authenticate user '' @ u @ '' with calendar server''))"
    by (simp add: handle_retried fresh_getter_def)
  then show "\<exists>out. replay L f [hs1, hs2] =
         [out, Errback (Unauthorized
           (''Could not authenticate user '' @ u @ '' with calendar server''))]"
    unfolding f'_def by (simp add: Let_def)
next
  show "length (filter is_Connect (replay L f hss)) \<le> 1"
    by (rule replay_at_most_one)
qed

theorem one_retry_per_cycle_witness:
  "username (factory (fresh_getter sample_factory basic_only)) = Some ''user01'' \<and>
   \<not> retried (factory (fresh_getter sample_factory basic_only)) \<and>
   retried (factory (fst (handleStatus_401 sample_lib (fresh_getter sample_factory basic_only)))) \<and>
   replay sample_lib sample_factory [basic_only, basic_only] =
     [Connect (GAIEndpoint ''localhost'' 8443 True),
      Errback (Unauthorized ''Could not authenticate user user01 with calendar server'')]"
proof -
  have u: "username (factory (fresh_getter sample_factory basic_only)) = Some ''user01''"
    by (simp add: fresh_getter_def sample_factory_def)
  have r: "\<not> retried (factory (fresh_getter sample_factory basic_only))"
    by (simp add: fresh_getter_def sample_factory_def)
  have run: "replay sample_lib sample_factory [basic_only, basic_only] =
     [Connect (GAIEndpoint ''localhost'' 8443 True),
      Errback (Unauthorized ''Could not authenticate user user01 with calendar server'')]"
    by (simp add: basic_only_def sample_factory_def fresh_getter_def handleStatus_401_def
      authorize_def scan_wwwauth_def startswith_def set_retried_def set_authorization_def
      reconnect_def Let_def)
  from one_retry_per_cycle [where g = "fresh_getter sample_factory basic_only"
      and u = "''user01''" and L = sample_lib and f = sample_factory] u r run
  show ?thesis by simp
qed

text \<open>
  Claim C5. When the factory has no \<^verbatim>\<open>username\<close> attribute, a 401 fails the deferred
  at once with \<^verbatim>\<open>Unauthorized\<close>, "Authentication required": the factory is unchanged (the
  \<open>retried\<close> flag is not set), the outcome is no reconnection, and no later 401 of the
  same factory reconnects either.
\<close>

theorem no_credentials:
  "username (factory g) = None \<Longrightarrow>
   handleStatus_401 L g =
     (g\<lparr>quietLoss := 1, connected := False\<rparr>,
      Errback (Unauthorized ''Authentication required'')) \<and>
   retried (factory (fst (handleStatus_401 L g))) = retried (factory g) \<and>
   \<not> is_Connect (snd (handleStatus_401 L g)) \<and>
   filter is_Connect (replay L (factory g) hss) = []"
  by (simp add: handle_no_user replay_no_user)

theorem no_credentials_witness:
  "username (factory (fresh_getter (sample_factory\<lparr>username := None\<rparr>) basic_only)) = None \<and>
   handleStatus_401 sample_lib (fresh_getter (sample_factory\<lparr>username := None\<rparr>) basic_only) =
     (\<lparr>quietLoss = 1, connected = False, headers = basic_only,
       factory = sample_factory\<lparr>username := None\<rparr>\<rparr>,
      Errback (Unauthorized ''Authentication required''))"
proof -
  have u: "username (factory (fresh_getter (sample_factory\<lparr>username := None\<rparr>) basic_only)) = None"
    by (simp add: fresh_getter_def)
  from no_credentials [OF u, of sample_lib] u show ?thesis
    by (simp add: fresh_getter_def)
qed

text \<open>
  The claim as stated (any case variant is recognised like the lower-case form) fails:
  \<^verbatim>\<open>Digest\<close>, \<^verbatim>\<open>DIGEST\<close> and \<^verbatim>\<open>Basic\<close> are scanned as offering no scheme at all.
\<close>

theorem scheme_case_counterexample:
  \<open>scan_wwwauth (Some [''digest realm="test"'']) = Inr (False, True, [(''realm'', ''test'')]) \<and>
   scan_wwwauth (Some [''Digest realm="test"'']) = Inr (False, False, []) \<and>
   scan_wwwauth (Some [''DIGEST realm="test"'']) = Inr (False, False, []) \<and>
   scan_wwwauth (Some [''basic realm="test"'']) = Inr (True, False, []) \<and>
   scan_wwwauth (Some [''Basic realm="test"'']) = Inr (False, False, [])\<close>
  by (simp add: scan_wwwauth_def startswith_def split1_def strip_def isspace_def unq_def)

text \<open>
  Claim C4, as the code has it. The scan of the \<^verbatim>\<open>www-authenticate\<close> values matches the
  scheme token with \<^verbatim>\<open>startswith\<close>, which compares bytes: Basic is available exactly
  when some value begins with the lower-case \<^verbatim>\<open>basic \<close>, and Digest exactly when some
  value begins with the lower-case \<^verbatim>\<open>digest \<close>. Any other spelling of the scheme is not
  recognised.
\<close>

theorem scheme_case_sensitive:
  "scan_wwwauth (Some items) = Inr (basicAvailable, digestAvailable, d) \<Longrightarrow>
   basicAvailable = (\<exists>i \<in> set items. \<exists>rest. i = ''basic '' @ rest) \<and>
   digestAvailable = (\<exists>i \<in> set items. \<exists>rest. i = ''digest '' @ rest)"
  using scan_wwwauth_flags [of "Some items" basicAvailable digestAvailable d]
  by (simp add: startswith_iff)

theorem scheme_case_sensitive_witness:
  "scan_wwwauth (Some [''basic realm=x'', ''DIGEST realm=y'']) = Inr (True, False, []) \<and>
   True = (\<exists>i \<in> set [''basic realm=x'', ''DIGEST realm=y'']. \<exists>rest. i = ''basic '' @ rest) \<and>
   False = (\<exists>i \<in> set [''basic realm=x'', ''DIGEST realm=y'']. \<exists>rest. i = ''digest '' @ rest)"
proof -
  have scan: "scan_wwwauth (Some [''basic realm=x'', ''DIGEST realm=y'']) = Inr (True, False, [])"
    by (simp add: scan_wwwauth_def startswith_def)
  from scheme_case_sensitive [OF scan] scan show ?thesis by simp
qed




text \<open>
  Claim C8. On a first 401 with user name and password configured: when the scan
  reports Digest (whether or not Basic is offered too) the handler takes the Digest
  branch, and if it reconnects, the \<^verbatim>\<open>Authorization\<close> header is the Digest value, which
  begins with \<^verbatim>\<open>Digest \<close> and not with \<^verbatim>\<open>Basic \<close>; otherwise the exception of the
  digest calculator escapes and Basic is not tried. When the scan reports Basic and no
  Digest, the handler reconnects with \<^verbatim>\<open>Basic \<close> followed by the encoded credentials,
  without line breaks. When the scan itself raises, the exception escapes. So a
  reconnection carrying a Basic header happens only when Basic is offered and Digest is
  not.
\<close>

theorem digest_preferred:
  assumes "username (factory g) = Some u" and "\<not> retried (factory g)"
    and "password (factory g) = Some p"
  shows
   "(scan_wwwauth (map_of (headers g) ''www-authenticate'') = Inr (b, True, d) \<longrightarrow>
      (case digest_authorization L d u p (http_method (factory g)) (url (factory g)) of
         Inl e \<Rightarrow>
           handleStatus_401 L g =
             (set_retried (g\<lparr>quietLoss := 1, connected := False\<rparr>), Raise e)
       | Inr resp \<Rightarrow>
           handleStatus_401 L g =
             (set_authorization resp (set_retried (g\<lparr>quietLoss := 1, connected := False\<rparr>)),
              reconnect (factory g)) \<and>
           map_of (request_headers (factory (fst (handleStatus_401 L g)))) ''Authorization'' =
             Some resp \<and>
           startswith resp ''Digest '' \<and> \<not> startswith resp ''Basic '')) \<and>
    (scan_wwwauth (map_of (headers g) ''www-authenticate'') = Inr (True, False, d) \<longrightarrow>
       handleStatus_401 L g =
         (set_authorization (basic_authorization L u p)
            (set_retried (g\<lparr>quietLoss := 1, connected := False\<rparr>)),
          reconnect (factory g)) \<and>
       map_of (request_headers (factory (fst (handleStatus_401 L g)))) ''Authorization'' =
         Some (basic_authorization L u p) \<and>
       startswith (basic_authorization L u p) ''Basic '' \<and>
       CHR 0x0A \<notin> set (basic_authorization L u p)) \<and>
    (scan_wwwauth (map_of (headers g) ''www-authenticate'') = Inl e \<longrightarrow>
       handleStatus_401 L g =
         (set_retried (g\<lparr>quietLoss := 1, connected := False\<rparr>), Raise e)) \<and>
    (is_Connect (snd (handleStatus_401 L g)) \<and>
     (\<exists>v. map_of (request_headers (factory (fst (handleStatus_401 L g)))) ''Authorization'' =
            Some v \<and> startswith v ''Basic '') \<longrightarrow>
       (\<exists>d'. scan_wwwauth (map_of (headers g) ''www-authenticate'') = Inr (True, False, d')))"
proof -
  have c1: "case digest_authorization L d u p (http_method (factory g)) (url (factory g)) of
         Inl e \<Rightarrow>
           handleStatus_401 L g =
             (set_retried (g\<lparr>quietLoss := 1, connected := False\<rparr>), Raise e)
       | Inr resp \<Rightarrow>
           handleStatus_401 L g =
             (set_authorization resp (set_retried (g\<lparr>quietLoss := 1, connected := False\<rparr>)),
              reconnect (factory g)) \<and>
           map_of (request_headers (factory (fst (handleStatus_401 L g)))) ''Authorization'' =
             Some resp \<and>
           startswith resp ''Digest '' \<and> \<not> startswith resp ''Basic ''"
    if scan: "scan_wwwauth (map_of (headers g) ''www-authenticate'') = Inr (b, True, d)"
  proof (cases "digest_authorization L d u p (http_method (factory g)) (url (factory g))")
    case (Inl e)
    with handle_parsed [OF assms scan, of L] show ?thesis by simp
  next
    case (Inr resp)
    from digest_authorization_prefix [OF Inr] have "startswith resp ''Digest ''" .
    with handle_parsed [OF assms scan, of L] Inr show ?thesis
      by (simp add: map_of_set_authorization startswith_Digest_not_Basic)
  qed
  have c2: "handleStatus_401 L g =
         (set_authorization (basic_authorization L u p)
            (set_retried (g\<lparr>quietLoss := 1, connected := False\<rparr>)),
          reconnect (factory g)) \<and>
       map_of (request_headers (factory (fst (handleStatus_401 L g)))) ''Authorization'' =
         Some (basic_authorization L u p) \<and>
       startswith (basic_authorization L u p) ''Basic '' \<and>
       CHR 0x0A \<notin> set (basic_authorization L u p)"
    if scan: "scan_wwwauth (map_of (headers g) ''www-authenticate'') = Inr (True, False, d)"
    using handle_parsed [OF assms scan, of L]
    by (simp add: map_of_set_authorization basic_authorization_prefix
        basic_authorization_no_newline)
  have c3: "handleStatus_401 L g =
      (set_retried (g\<lparr>quietLoss := 1, connected := False\<rparr>), Raise e)"
    if "scan_wwwauth (map_of (headers g) ''www-authenticate'') = Inl e"
    using that assms by (simp add: handle_unparsed)
  have c4: "\<exists>d'. scan_wwwauth (map_of (headers g) ''www-authenticate'') = Inr (True, False, d')"
    if used: "is_Connect (snd (handleStatus_401 L g)) \<and>
     (\<exists>v. map_of (request_headers (factory (fst (handleStatus_401 L g)))) ''Authorization'' =
            Some v \<and> startswith v ''Basic '')"
  proof (cases "scan_wwwauth (map_of (headers g) ''www-authenticate'')")
    case (Inl e)
    with assms used show ?thesis by (simp add: handle_unparsed)
  next
    case (Inr t)
    then obtain b dg d' where
      scan: "scan_wwwauth (map_of (headers g) ''www-authenticate'') = Inr (b, dg, d')"
      by (cases t) auto
    show ?thesis
    proof (cases dg)
      case True
      show ?thesis
      proof (cases "digest_authorization L d' u p (http_method (factory g)) (url (factory g))")
        case (Inl e)
        with handle_parsed [OF assms scan, of L] True used show ?thesis by simp
      next
        case (Inr resp)
        from digest_authorization_prefix [OF Inr] have "\<not> startswith resp ''Basic ''"
          by (rule startswith_Digest_not_Basic)
        with handle_parsed [OF assms scan, of L] True Inr used show ?thesis
          by (simp add: map_of_set_authorization)
      qed
    next
      case False
      with handle_parsed [OF assms scan, of L] used scan show ?thesis
        by (cases b) (simp_all add: reconnect_def)
    qed
  qed
  from c1 c2 c3 c4 show ?thesis by blast
qed

theorem digest_preferred_witness:
  \<open>username (factory (sample_getter
      [''basic realm="test"'', ''digest realm="test", nonce="abc123", algorithm=md5''])) =
     Some ''user01'' \<and>
   \<not> retried (factory (sample_getter
      [''basic realm="test"'', ''digest realm="test", nonce="abc123", algorithm=md5''])) \<and>
   password (factory (sample_getter
      [''basic realm="test"'', ''digest realm="test", nonce="abc123", algorithm=md5''])) =
     Some ''secret'' \<and>
   scan_wwwauth (map_of (headers (sample_getter
      [''basic realm="test"'', ''digest realm="test", nonce="abc123", algorithm=md5'']))
      ''www-authenticate'') =
     Inr (True, True, [(''realm'', ''test''), (''nonce'', ''abc123''), (''algorithm'', ''md5'')]) \<and>
   map_of (request_headers (factory (fst (handleStatus_401 sample_lib (sample_getter
      [''basic realm="test"'', ''digest realm="test", nonce="abc123", algorithm=md5''])))))
      ''Authorization'' =
     Some (''Digest username="user01", realm="test", nonce="abc123", uri="/calendars/", response='' @
       hexlify (''md5('' @ hexlify ''md5(user01:test:secret)'' @ '':abc123:'' @
                hexlify ''md5(GET:/calendars/)'' @ '')'') @ '', algorithm=md5'') \<and>
   snd (handleStatus_401 sample_lib (sample_getter
      [''basic realm="test"'', ''digest realm="test", nonce="abc123", algorithm=md5''])) =
     Connect (GAIEndpoint ''localhost'' 8443 True)\<close>
proof -
  let ?g = \<open>sample_getter
      [''basic realm="test"'', ''digest realm="test", nonce="abc123", algorithm=md5'']\<close>
  let ?d = "[(''realm'', ''test''), (''nonce'', ''abc123''), (''algorithm'', ''md5'')]"
  have u: "username (factory ?g) = Some ''user01''"
    by (simp add: sample_getter_def fresh_getter_def sample_factory_def)
  have r: "\<not> retried (factory ?g)"
    by (simp add: sample_getter_def fresh_getter_def sample_factory_def)
  have p: "password (factory ?g) = Some ''secret''"
    by (simp add: sample_getter_def fresh_getter_def sample_factory_def)
  have scan: "scan_wwwauth (map_of (headers ?g) ''www-authenticate'') = Inr (True, True, ?d)"
    by (simp add: sample_getter_def fresh_getter_def scan_wwwauth_def startswith_def
        split1_def strip_def isspace_def unq_def)
  let ?resp = \<open>''Digest username="user01", realm="test", nonce="abc123", uri="/calendars/", response='' @
       hexlify (''md5('' @ hexlify ''md5(user01:test:secret)'' @ '':abc123:'' @
                hexlify ''md5(GET:/calendars/)'' @ '')'') @ '', algorithm=md5''\<close>
  have da: "digest_authorization sample_lib ?d ''user01'' ''secret''
      (http_method (factory ?g)) (url (factory ?g)) = Inr ?resp"
    by (simp add: sample_getter_def fresh_getter_def sample_factory_def sample_lib_def
        digest_authorization_def calcHA1_def calcResponse_def algorithms_def Let_def)
  have ep: "reconnect (factory ?g) = Connect (GAIEndpoint ''localhost'' 8443 True)"
    by (simp add: sample_getter_def fresh_getter_def sample_factory_def reconnect_def)
  from digest_preferred [OF u r p, where L = sample_lib and b = True and d = ?d] scan
  have "case digest_authorization sample_lib ?d ''user01'' ''secret''
      (http_method (factory ?g)) (url (factory ?g)) of
         Inl e \<Rightarrow>
           handleStatus_401 sample_lib ?g =
             (set_retried (?g\<lparr>quietLoss := 1, connected := False\<rparr>), Raise e)
       | Inr resp \<Rightarrow>
           handleStatus_401 sample_lib ?g =
             (set_authorization resp (set_retried (?g\<lparr>quietLoss := 1, connected := False\<rparr>)),
              reconnect (factory ?g)) \<and>
           map_of (request_headers (factory (fst (handleStatus_401 sample_lib ?g))))
             ''Authorization'' = Some resp \<and>
           startswith resp ''Digest '' \<and> \<not> startswith resp ''Basic ''"
    by blast
  then have run: "handleStatus_401 sample_lib ?g =
             (set_authorization ?resp (set_retried (?g\<lparr>quietLoss := 1, connected := False\<rparr>)),
              reconnect (factory ?g))"
    and hdr: "map_of (request_headers (factory (fst (handleStatus_401 sample_lib ?g))))
             ''Authorization'' = Some ?resp"
    unfolding da sum.case by blast+
  from run ep have "snd (handleStatus_401 sample_lib ?g) =
      Connect (GAIEndpoint ''localhost'' 8443 True)"
    by (simp only: snd_conv)
  with u r p scan hdr show ?thesis by (intro conjI)
qed

text \<open>
  The claim as stated fails on its own challenge: with \<^verbatim>\<open>algorithm=MD5\<close> the lookup
  \<^verbatim>\<open>algorithms['MD5']\<close> raises \<^verbatim>\<open>KeyError\<close> and no header is built.
\<close>

theorem challenge_MD5_counterexample:
  \<open>handleStatus_401 sample_lib
     (sample_getter [''digest realm="test", nonce="abc123", qop="auth", algorithm=MD5'']) =
   (\<lparr>quietLoss = 1, connected = False,
     headers = [(''www-authenticate'',
        [''digest realm="test", nonce="abc123", qop="auth", algorithm=MD5''])],
     factory = sample_factory\<lparr>retried := True\<rparr>\<rparr>,
    Raise (KeyError (Some ''MD5'')))\<close>
  by (simp add: sample_getter_def sample_factory_def fresh_getter_def handleStatus_401_def
      authorize_def scan_wwwauth_def startswith_def split1_def strip_def isspace_def unq_def
      set_retried_def Let_def digest_authorization_def calcHA1_def algorithms_def)

text \<open>
  Claim C9, as the code has it. Scanning the value \<^verbatim>\<open>digest realm="test",
  nonce="abc123", qop="auth", algorithm=MD5\<close> yields exactly the four directives, trimmed
  and with the outer quotes removed (\<open>unq\<close> removes one outer pair of double quotes).
  The \<^verbatim>\<open>Authorization\<close> header is rebuilt only for an algorithm name of the table, which
  has lower-case keys: with \<^verbatim>\<open>algorithm=md5\<close> in the same challenge, the sample
  credentials give, for every hash function, the reference string shown, and the
  factory reconnects.
\<close>

theorem challenge_roundtrip:
  \<open>scan_wwwauth (Some [''digest realm="test", nonce="abc123", qop="auth", algorithm=MD5'']) =
     Inr (False, True,
       [(''realm'', ''test''), (''nonce'', ''abc123''), (''qop'', ''auth''),
        (''algorithm'', ''MD5'')]) \<and>
   unq (CHR 0x22 # s @ [CHR 0x22]) = Inr s \<and>
   handleStatus_401 L
     (sample_getter [''digest realm="test", nonce="abc123", qop="auth", algorithm=md5'']) =
   (\<lparr>quietLoss = 1, connected = False,
     headers = [(''www-authenticate'',
        [''digest realm="test", nonce="abc123", qop="auth", algorithm=md5''])],
     factory = sample_factory\<lparr>retried := True, request_headers := [(''Authorization'',
        ''Digest username="user01", realm="test", nonce="abc123", uri="/calendars/", response='' @
        hexlify (md5 L (hexlify (md5 L ''user01:test:secret'') @ '':abc123:'' @
                        hexlify (md5 L ''GET:/calendars/''))) @
        '', algorithm=md5, cnonce="None", qop=auth, nc=None'')]\<rparr>\<rparr>,
    Connect (GAIEndpoint ''localhost'' 8443 True))\<close>
proof -
  have parse: \<open>scan_wwwauth
      (Some [''digest realm="test", nonce="abc123", qop="auth", algorithm=MD5'']) =
     Inr (False, True,
       [(''realm'', ''test''), (''nonce'', ''abc123''), (''qop'', ''auth''),
        (''algorithm'', ''MD5'')])\<close>
    by (simp add: scan_wwwauth_def startswith_def split1_def strip_def isspace_def unq_def)
  have run: \<open>handleStatus_401 L
     (sample_getter [''digest realm="test", nonce="abc123", qop="auth", algorithm=md5'']) =
   (\<lparr>quietLoss = 1, connected = False,
     headers = [(''www-authenticate'',
        [''digest realm="test", nonce="abc123", qop="auth", algorithm=md5''])],
     factory = sample_factory\<lparr>retried := True, request_headers := [(''Authorization'',
        ''Digest username="user01", realm="test", nonce="abc123", uri="/calendars/", response='' @
        hexlify (md5 L (hexlify (md5 L ''user01:test:secret'') @ '':abc123:'' @
                        hexlify (md5 L ''GET:/calendars/''))) @
        '', algorithm=md5, cnonce="None", qop=auth, nc=None'')]\<rparr>\<rparr>,
    Connect (GAIEndpoint ''localhost'' 8443 True))\<close>
    by (simp add: sample_getter_def sample_factory_def fresh_getter_def handleStatus_401_def
      authorize_def scan_wwwauth_def startswith_def split1_def strip_def isspace_def unq_def
      set_retried_def set_authorization_def reconnect_def Let_def digest_authorization_def
      calcHA1_def calcResponse_def algorithms_def)
  from parse run unq_quoted [of s] show ?thesis by (intro conjI)
qed




end
